theory Spec2Isabelle
  imports Main

begin

section \<open>Python values used by curtin's mkfs and gpg helpers\<close>

text \<open>
  Exceptions are values. \<open>ValueError\<close> carries the argument tuple it was built with
  (the source builds it with one argument everywhere but one place);
  \<open>ProcessExecutionError\<close> carries the text \<open>str(error)\<close> of the failure reported by
  \<open>util.subp\<close>.
\<close>

datatype error =
    ValueError "string list"
  | TypeError string
  | AttributeError string
  | ProcessExecutionError string

abbreviation (input) apostrophe :: string where
  "apostrophe \<equiv> [CHR 0x27]"

abbreviation (input) newline :: string where
  "newline \<equiv> [CHR 0x0A]"

text \<open>
  Python's \<open>fmt % args\<close> for the conversions the source uses (\<open>%s\<close>, and \<open>%%\<close>).
  The argument list is the tuple on the right of \<open>%\<close>, each element already turned into
  its \<open>str()\<close>; an operand that is not a tuple is a list of one element.  Too few
  arguments and left-over arguments both raise \<open>TypeError\<close>, as in Python.
\<close>

fun py_format :: "string \<Rightarrow> string list \<Rightarrow> error + string" where
  "py_format [] [] = Inr []"
| "py_format [] (a # as) =
     Inl (TypeError ''not all arguments converted during string formatting'')"
| "py_format (c # cs) as =
     (if c \<noteq> CHR ''%'' then map_sum id ((#) c) (py_format cs as)
      else case cs of
        [] \<Rightarrow> Inl (ValueError [''incomplete format''])
      | d # ds \<Rightarrow>
          if d = CHR ''%'' then map_sum id ((#) (CHR ''%'')) (py_format ds as)
          else if d = CHR ''s'' then
            (case as of
               [] \<Rightarrow> Inl (TypeError ''not enough arguments for format string'')
             | a # as' \<Rightarrow> map_sum id ((@) a) (py_format ds as'))
          else Inl (ValueError [''unsupported format character'']))"

text \<open>\<open>raise ValueError(fmt % args)\<close>: the formatting runs first and may itself raise.\<close>

definition raise_ValueError :: "string \<Rightarrow> string list \<Rightarrow> error" where
  "raise_ValueError fmt args =
     (case py_format fmt args of Inl e \<Rightarrow> e | Inr msg \<Rightarrow> ValueError [msg])"

text \<open>\<open>str(n)\<close> for a non-negative integer.\<close>

function str_nat :: "nat \<Rightarrow> string" where
  "str_nat n =
     (if n < 10 then [''0123456789'' ! n]
      else str_nat (n div 10) @ [''0123456789'' ! (n mod 10)])"
  by pat_completeness auto

termination
  by (relation "measure id") auto

declare str_nat.simps [simp del]

text \<open>\<open>s.strip(chars)\<close>, \<open>s.rstrip(chars)\<close> and \<open>string.ascii_letters\<close>.\<close>

definition py_rstrip :: "string \<Rightarrow> string \<Rightarrow> string" where
  "py_rstrip s chars = rev (dropWhile (\<lambda>c. c \<in> set chars) (rev s))"

definition py_strip :: "string \<Rightarrow> string \<Rightarrow> string" where
  "py_strip s chars = dropWhile (\<lambda>c. c \<in> set chars) (py_rstrip s chars)"

definition ascii_letters :: string where
  "ascii_letters = ''abcdefghijklmnopqrstuvwxyzABCDEFGHIJKLMNOPQRSTUVWXYZ''"

section \<open>The tables of \<open>curtin/block/mkfs.py\<close>\<close>

definition mkfs_commands :: "string \<rightharpoonup> string" where
  "mkfs_commands = map_of
     [(''btrfs'', ''mkfs.btrfs''),
      (''ext2'', ''mkfs.ext2''),
      (''ext3'', ''mkfs.ext3''),
      (''ext4'', ''mkfs.ext4''),
      (''fat'', ''mkfs.fat''),
      (''fat12'', ''mkfs.fat''),
      (''fat16'', ''mkfs.fat''),
      (''fat32'', ''mkfs.fat''),
      (''jfs'', ''jfs_mkfs''),
      (''ntfs'', ''mkntfs''),
      (''reiserfs'', ''mkfs.reiserfs''),
      (''swap'', ''mkswap''),
      (''xfs'', ''mkfs.xfs'')]"

definition specific_to_family :: "string \<rightharpoonup> string" where
  "specific_to_family = map_of
     [(''ext2'', ''ext''),
      (''ext3'', ''ext''),
      (''ext4'', ''ext''),
      (''fat12'', ''fat''),
      (''fat16'', ''fat''),
      (''fat32'', ''fat'')]"

definition label_length_limits :: "string \<rightharpoonup> nat" where
  "label_length_limits = map_of
     [(''btrfs'', 256),
      (''ext'', 16),
      (''fat'', 11),
      (''jfs'', 16),
      (''ntfs'', 32),
      (''reiserfs'', 16),
      (''swap'', 15),
      (''xfs'', 12)]"

definition family_flag_mappings :: "string \<rightharpoonup> (string \<rightharpoonup> string)" where
  "family_flag_mappings = map_of
     [(''label'', map_of
         [(''btrfs'', ''--label''),
          (''ext'', ''-L''),
          (''fat'', ''-n''),
          (''jfs'', ''-L''),
          (''ntfs'', ''--label''),
          (''reiserfs'', ''--label''),
          (''swap'', ''--label''),
          (''xfs'', ''-L'')]),
      (''uuid'', map_of
         [(''btrfs'', ''--uuid''),
          (''ext'', ''-U''),
          (''reiserfs'', ''--uuid''),
          (''swap'', ''--uuid'')]),
      (''force'', map_of
         [(''btrfs'', ''--force''),
          (''ext'', ''-F''),
          (''ntfs'', ''--force''),
          (''reiserfs'', ''-f''),
          (''swap'', ''--force''),
          (''xfs'', ''-f'')]),
      (''fatsize'', map_of
         [(''fat'', ''-F'')]),
      (''quiet'', map_of
         [(''ext'', ''-q''),
          (''ntfs'', ''-q''),
          (''reiserfs'', ''-q''),
          (''xfs'', ''--quiet'')])]"

section \<open>\<open>get_flag_mapping\<close>\<close>

text \<open>
  In the strict branch the source writes
  \<^verbatim>\<open>raise ValueError("flag '%s' not supported by fs family '%s'" % flag_name, fs_family)\<close>:
  \<open>%\<close> binds tighter than the comma, so the format string with its two \<open>%s\<close> is applied
  to \<open>flag_name\<close> alone, and \<open>fs_family\<close> would be the second argument of
  \<open>ValueError\<close>.
\<close>

definition get_flag_mapping ::
  "string \<Rightarrow> string \<Rightarrow> string option \<Rightarrow> bool \<Rightarrow> error + string list" where
  \<open>get_flag_mapping flag_name fs_family param strict =
     (case family_flag_mappings flag_name of
        None \<Rightarrow> Inl (raise_ValueError (''unsupported flag '%s'' @ apostrophe) [flag_name])
      | Some flag_sym_families \<Rightarrow>
          (case flag_sym_families fs_family of
             None \<Rightarrow>
               if strict then
                 (case py_format
                         (''flag '%s' not supported by fs family '%s'' @ apostrophe)
                         [flag_name] of
                    Inl e \<Rightarrow> Inl e
                  | Inr msg \<Rightarrow> Inl (ValueError [msg, fs_family]))
               else Inr []
           | Some flag_sym \<Rightarrow>
               Inr (flag_sym # (case param of None \<Rightarrow> [] | Some p \<Rightarrow> [p]))))\<close>

section \<open>Collaborators and recorded effects\<close>

text \<open>
  The code talks to the outside through \<open>os.path.exists\<close>, \<open>util.which\<close>,
  \<open>util.lsb_release\<close>, \<open>util.subp\<close> and the logger \<open>LOG\<close>.  They are parameters of
  the model: an environment over a world \<open>'w\<close>.  \<open>util_subp\<close> yields either the text of
  the \<open>ProcessExecutionError\<close> it raises or the pair \<open>(stdout, stderr)\<close>, and the world
  after the process has run.  Every call to a collaborator is recorded, in order, in a
  trace.
\<close>

datatype level = Debug | Warn | Exception

datatype event =
    PathExists string
  | Which string
  | LsbRelease
  | Subp "string list"
  | Log level string "string list"

record 'w env =
  os_path_exists :: "'w \<Rightarrow> string \<Rightarrow> bool"
  util_which :: "'w \<Rightarrow> string \<Rightarrow> string option"
  lsb_codename :: "'w \<Rightarrow> string"
  util_subp :: "'w \<Rightarrow> string list \<Rightarrow> (string + string \<times> string) \<times> 'w"

type_synonym 'w state = "'w \<times> event list"

definition emit :: "event \<Rightarrow> 'w state \<Rightarrow> 'w state" where
  "emit e s = (fst s, snd s @ [e])"

text \<open>\<open>util.subp(argv, capture=True)\<close>, recorded.\<close>

definition subp ::
  "'w env \<Rightarrow> string list \<Rightarrow> 'w state \<Rightarrow> (string + string \<times> string) \<times> 'w state" where
  "subp env argv s =
     (case util_subp env (fst s) argv of
        (r, w') \<Rightarrow> (r, (w', snd s @ [Subp argv])))"

text \<open>The external processes of a trace, in the order they were started.\<close>

fun invoked :: "event list \<Rightarrow> string list list" where
  "invoked [] = []"
| "invoked (Subp argv # es) = argv # invoked es"
| "invoked (e # es) = invoked es"

section \<open>\<open>mkfs\<close>\<close>

text \<open>\<open>cmd.extend(get_flag_mapping(...))\<close>: an exception of the call leaves the function.\<close>

definition extend :: "string list \<Rightarrow> error + string list \<Rightarrow> error + string list" where
  "extend cmd r = (case r of Inl e \<Rightarrow> Inl e | Inr flags \<Rightarrow> Inr (cmd @ flags))"

definition seq :: "error + 'a \<Rightarrow> ('a \<Rightarrow> error + 'b) \<Rightarrow> error + 'b" where
  "seq r f = (case r of Inl e \<Rightarrow> Inl e | Inr x \<Rightarrow> f x)"

text \<open>
  The body of \<open>mkfs\<close> from \<open>cmd = [mkfs_cmd]\<close> to \<open>cmd.append(path)\<close> (lines 135 to 163):
  the four steps run in the order of the source, each extending \<open>cmd\<close>, and the first
  exception ends the function.  \<open>codename\<close> is \<open>util.lsb_release()['codename']\<close>, which
  the source reads only when \<open>force\<close> is set.  A family without a label limit makes
  \<open>len(label) > None\<close> raise \<open>TypeError\<close> (Python 3); no file-system type that reaches
  this point has such a family.
\<close>

definition mkfs_cmd_line ::
  "string \<Rightarrow> string \<Rightarrow> string \<Rightarrow> string \<Rightarrow> string \<Rightarrow> bool \<Rightarrow> string option \<Rightarrow>
   string option \<Rightarrow> bool \<Rightarrow> error + string list" where
  \<open>mkfs_cmd_line codename mkfs_cmd path fstype fs_family strict label uuid force =
     seq (if force then
            if \<not> (codename = ''precise'' \<and> fstype = ''btrfs'') then
              extend [mkfs_cmd] (get_flag_mapping ''force'' fs_family None strict)
            else Inr [mkfs_cmd]
          else Inr [mkfs_cmd])
     (\<lambda>cmd.
     seq (case label of
            None \<Rightarrow> Inr cmd
          | Some l \<Rightarrow>
              (case label_length_limits fs_family of
                 None \<Rightarrow>
                   Inl (TypeError (''unorderable types: int() > NoneType()''))
               | Some limit \<Rightarrow>
                   if length l > limit then
                     if strict then
                       Inl (raise_ValueError
                              (''length of fs label for '%s' exceeds max ''
                               @ replicate 33 (CHR '' '')
                               @ ''allowed for fstype '%s'. max is '%s'' @ apostrophe)
                              [path, fstype, str_nat limit])
                     else
                       extend cmd
                         (get_flag_mapping ''label'' fs_family (Some (take limit l)) strict)
                   else
                     extend cmd (get_flag_mapping ''label'' fs_family (Some l) strict)))
     (\<lambda>cmd.
     seq (case uuid of
            None \<Rightarrow> Inr cmd
          | Some u \<Rightarrow> extend cmd (get_flag_mapping ''uuid'' fs_family (Some u) strict))
     (\<lambda>cmd.
     seq (if fs_family = ''fat'' then
            let fat_size = py_strip fstype ascii_letters in
            if fat_size \<in> set [''12'', ''16'', ''32''] then
              extend cmd (get_flag_mapping ''fatsize'' fs_family (Some fat_size) strict)
            else Inr cmd
          else Inr cmd)
     (\<lambda>cmd. Inr (cmd @ [path])))))\<close>

definition mkfs ::
  "'w env \<Rightarrow> string option \<Rightarrow> string \<Rightarrow> bool \<Rightarrow> string option \<Rightarrow> string option \<Rightarrow> bool \<Rightarrow>
   'w state \<Rightarrow> (error + unit) \<times> 'w state" where
  \<open>mkfs env path fstype strict label uuid force s =
     (case path of
        None \<Rightarrow>
          (Inl (raise_ValueError (''invalid block dev path '%s'' @ apostrophe) [''None'']), s)
      | Some p \<Rightarrow>
          let s1 = emit (PathExists p) s in
          if \<not> os_path_exists env (fst s) p then
            (Inl (raise_ValueError '''%s': no such file or directory'' [p]), s1)
          else
            let fs_family =
                  (case specific_to_family fstype of None \<Rightarrow> fstype | Some f \<Rightarrow> f) in
            case mkfs_commands fstype of
              None \<Rightarrow>
                (Inl (raise_ValueError (''unsupported fs type '%s'' @ apostrophe) [fstype]),
                 s1)
            | Some mkfs_cmd \<Rightarrow>
                if mkfs_cmd = [] then
                  (Inl (raise_ValueError (''unsupported fs type '%s'' @ apostrophe) [fstype]),
                   s1)
                else
                  let s2 = emit (Which mkfs_cmd) s1 in
                  if util_which env (fst s) mkfs_cmd = None then
                    (Inl (raise_ValueError ''need '%s' but it could not be found''
                            [mkfs_cmd]), s2)
                  else
                    let s3 = (if force then emit LsbRelease s2 else s2) in
                    case mkfs_cmd_line (lsb_codename env (fst s)) mkfs_cmd p fstype
                           fs_family strict label uuid force of
                      Inl e \<Rightarrow> (Inl e, s3)
                    | Inr cmd \<Rightarrow>
                        (case subp env cmd s3 of
                           (Inl failure, s4) \<Rightarrow> (Inl (ProcessExecutionError failure), s4)
                         | (Inr out, s4) \<Rightarrow> (Inr (), s4)))\<close>

section \<open>\<open>curtin/gpg.py\<close>\<close>

text \<open>
  The logger receives the format string and its arguments unformatted, as the source
  passes them; logging never changes the control flow.
\<close>

definition gpg_export_armour :: "'w env \<Rightarrow> string \<Rightarrow> 'w state \<Rightarrow> string option \<times> 'w state" where
  \<open>gpg_export_armour env key s =
     (case subp env [''gpg'', ''--export'', ''--armour'', key] s of
        (Inr (armour, _), s') \<Rightarrow> (Some armour, s')
      | (Inl error, s') \<Rightarrow>
          (None, emit (Log Debug ''Failed to export armoured key "%s": %s'' [key, error]) s'))\<close>

definition gpg_recv_key ::
  "'w env \<Rightarrow> string \<Rightarrow> string \<Rightarrow> 'w state \<Rightarrow> (error + unit) \<times> 'w state" where
  \<open>gpg_recv_key env key keyserver s =
     (let s1 = emit (Log Debug ''Receive gpg key "%s"'' [key]) s in
      case subp env [''gpg'', ''--keyserver'', keyserver, ''--recv'', key] s1 of
        (Inr out, s2) \<Rightarrow> (Inr (), s2)
      | (Inl error, s2) \<Rightarrow>
          (Inl (raise_ValueError
                  ''Failed to import key "%s" from server "%s" - error %s''
                  [key, keyserver, error]), s2))\<close>

definition gpg_delete_key :: "'w env \<Rightarrow> string \<Rightarrow> 'w state \<Rightarrow> 'w state" where
  \<open>gpg_delete_key env key s =
     (case subp env [''gpg'', ''--batch'', ''--yes'', ''--delete-keys'', key] s of
        (Inr out, s') \<Rightarrow> s'
      | (Inl error, s') \<Rightarrow> emit (Log Warn ''Failed delete key "%s": %s'' [key, error]) s')\<close>

text \<open>
  \<open>not armour\<close> holds for \<open>None\<close> and for the empty string.  The \<open>except ValueError\<close>
  clause logs and re-raises; the \<open>finally\<close> clause runs \<open>gpg_delete_key\<close> on every way
  out of the \<open>try\<close> block.  The last line calls \<open>rstrip\<close> on \<open>armour\<close>, which raises
  \<open>AttributeError\<close> when \<open>armour\<close> is \<open>None\<close>.
\<close>

definition gpg_getkeybyid ::
  "'w env \<Rightarrow> string \<Rightarrow> string \<Rightarrow> 'w state \<Rightarrow> (error + string) \<times> 'w state" where
  \<open>gpg_getkeybyid env keyid keyserver s =
     (case gpg_export_armour env keyid s of
        (armour, s1) \<Rightarrow>
          (case (if armour = None \<or> armour = Some [] then
                   (case gpg_recv_key env keyid keyserver s1 of
                      (Inr done, s2) \<Rightarrow>
                        (case gpg_export_armour env keyid s2 of
                           (armour', s3) \<Rightarrow> (Inr armour', gpg_delete_key env keyid s3))
                    | (Inl e, s2) \<Rightarrow>
                        (Inl e,
                         gpg_delete_key env keyid
                           (case e of
                              ValueError args \<Rightarrow>
                                emit (Log Exception ''Failed to obtain gpg key %s'' [keyid]) s2
                            | _ \<Rightarrow> s2)))
                 else (Inr armour, s1)) of
             (Inl e, s') \<Rightarrow> (Inl e, s')
           | (Inr None, s') \<Rightarrow>
               (Inl (AttributeError
                       ('''NoneType' object has no attribute 'rstrip'' @ apostrophe)), s')
           | (Inr (Some text), s') \<Rightarrow> (Inr (py_rstrip text newline), s')))\<close>

definition default_keyserver :: string where
  "default_keyserver = ''keyserver.ubuntu.com''"

section \<open>A test double for the collaborators\<close>

text \<open>
  A host on which only \<open>/dev/x\<close> exists, every tool is found under \<open>/sbin\<close>, the release
  codename is the given one, and each process started takes its outcome from a list of
  canned outcomes (the world), failing once the list is used up.
\<close>

definition fixture :: "string \<Rightarrow> (string + string \<times> string) list env" where
  "fixture codename =
     \<lparr> os_path_exists = (\<lambda>w p. p = ''/dev/x''),
       util_which = (\<lambda>w c. Some (''/sbin/'' @ c)),
       lsb_codename = (\<lambda>w. codename),
       util_subp = (\<lambda>w argv. case w of [] \<Rightarrow> (Inl ''no canned outcome'', [])
                                 | r # rs \<Rightarrow> (r, rs)) \<rparr>"

section \<open>The four steps of the command line, one by one\<close>

text \<open>
  What each step of \<open>mkfs\<close> adds to \<open>cmd\<close>, as a function of its own: the force flag
  (lines 137 to 142), the label (143 to 153), the uuid (154 to 156) and the FAT size
  (157 to 161).  \<open>mkfs_cmd_line\<close> is proved below to be their composition.
\<close>

definition force_flags :: "string \<Rightarrow> string \<Rightarrow> string \<Rightarrow> bool \<Rightarrow> bool \<Rightarrow> error + string list" where
  "force_flags codename fstype fs_family strict force =
     (if force \<and> \<not> (codename = ''precise'' \<and> fstype = ''btrfs'') then
        get_flag_mapping ''force'' fs_family None strict
      else Inr [])"

definition label_flags :: "string \<Rightarrow> string \<Rightarrow> string \<Rightarrow> bool \<Rightarrow> string option \<Rightarrow> error + string list" where
  \<open>label_flags path fstype fs_family strict label =
     (case label of
        None \<Rightarrow> Inr []
      | Some l \<Rightarrow>
          (case label_length_limits fs_family of
             None \<Rightarrow> Inl (TypeError (''unorderable types: int() > NoneType()''))
           | Some limit \<Rightarrow>
               if length l > limit then
                 if strict then
                   Inl (raise_ValueError
                          (''length of fs label for '%s' exceeds max ''
                           @ replicate 33 (CHR '' '')
                           @ ''allowed for fstype '%s'. max is '%s'' @ apostrophe)
                          [path, fstype, str_nat limit])
                 else get_flag_mapping ''label'' fs_family (Some (take limit l)) strict
               else get_flag_mapping ''label'' fs_family (Some l) strict))\<close>

definition uuid_flags :: "string \<Rightarrow> bool \<Rightarrow> string option \<Rightarrow> error + string list" where
  "uuid_flags fs_family strict uuid =
     (case uuid of
        None \<Rightarrow> Inr []
      | Some u \<Rightarrow> get_flag_mapping ''uuid'' fs_family (Some u) strict)"

definition fatsize_flags :: "string \<Rightarrow> string \<Rightarrow> bool \<Rightarrow> error + string list" where
  "fatsize_flags fstype fs_family strict =
     (if fs_family = ''fat'' \<and> py_strip fstype ascii_letters \<in> set [''12'', ''16'', ''32''] then
        get_flag_mapping ''fatsize'' fs_family (Some (py_strip fstype ascii_letters)) strict
      else Inr [])"

section \<open>The branch of \<open>gpg_getkeybyid\<close> taken without a local key\<close>

text \<open>
  What \<open>gpg_getkeybyid\<close> does from the \<open>try\<close> block to its \<open>return\<close> when the first
  export gave no text, as a function of the state after that export.
\<close>

definition fetch_then_delete ::
  "'w env \<Rightarrow> string \<Rightarrow> string \<Rightarrow> 'w state \<Rightarrow> (error + string) \<times> 'w state" where
  \<open>fetch_then_delete env keyid keyserver s1 =
     (case gpg_recv_key env keyid keyserver s1 of
        (Inr done, s2) \<Rightarrow>
          (case gpg_export_armour env keyid s2 of
             (armour', s3) \<Rightarrow>
               (case armour' of
                  None \<Rightarrow>
                    Inl (AttributeError
                           ('''NoneType' object has no attribute 'rstrip'' @ apostrophe))
                | Some text \<Rightarrow> Inr (py_rstrip text newline),
                gpg_delete_key env keyid s3))
      | (Inl e, s2) \<Rightarrow>
          (Inl e,
           gpg_delete_key env keyid
             (case e of
                ValueError args \<Rightarrow>
                  emit (Log Exception ''Failed to obtain gpg key %s'' [keyid]) s2
              | _ \<Rightarrow> s2)))\<close>

section \<open>Basic facts\<close>

lemma invoked_append: "invoked (xs @ ys) = invoked xs @ invoked ys"
  by (induction xs rule: invoked.induct) simp_all

lemma get_flag_mapping_unsupported:
  assumes "family_flag_mappings flag = Some m" and "m fam = None"
  shows "get_flag_mapping flag fam param True =
           Inl (TypeError ''not enough arguments for format string'')"
    and "get_flag_mapping flag fam param False = Inr []"
  using assms by (simp_all add: get_flag_mapping_def)

section \<open>Flag resolution\<close>

text \<open>
  C1.  For a flag of the table and a family without a token for it, the non-strict call
  returns the empty list.  The strict call does not raise the \<open>ValueError\<close> that names
  flag and family: building its message fails first, with a \<open>TypeError\<close> about the
  format string.  Evaluated here for the flag \<open>uuid\<close> and the family \<open>xfs\<close>.
\<close>

theorem get_flag_mapping_strict_unsupported_raises_TypeError:
  "get_flag_mapping ''uuid'' ''xfs'' (Some ''0a1b'') True =
     Inl (TypeError ''not enough arguments for format string'')
   \<and> get_flag_mapping ''uuid'' ''xfs'' (Some ''0a1b'') False = Inr []"
  by (simp add: get_flag_mapping_def family_flag_mappings_def)

section \<open>Path validation\<close>

text \<open>
  C8.  \<open>mkfs\<close> called with no path, or with a path that does not exist, raises the
  \<open>ValueError\<close> about the path.  Nothing but the existence check has happened by
  then: no tool lookup, no release query, no process.
\<close>

theorem mkfs_invalid_path:
  assumes "path = None \<or> (\<exists>p. path = Some p \<and> \<not> os_path_exists env w p)"
  shows "mkfs env path fstype strict label uuid force (w, tr) =
           (Inl (ValueError
                   [case path of
                      None \<Rightarrow> ''invalid block dev path 'None'' @ apostrophe
                    | Some p \<Rightarrow> apostrophe @ p @ ''': no such file or directory'']),
            (w, tr @ (case path of None \<Rightarrow> [] | Some p \<Rightarrow> [PathExists p])))
         \<and> invoked (snd (snd (mkfs env path fstype strict label uuid force (w, tr)))) =
             invoked tr"
  using assms by (auto simp: mkfs_def raise_ValueError_def emit_def invoked_append)

theorem mkfs_invalid_path_witness:
  "mkfs (fixture ''xenial'') None ''ext4'' False None None False ([], []) =
     (Inl (ValueError [''invalid block dev path 'None'' @ apostrophe]), ([], []))
   \<and> \<not> os_path_exists (fixture ''xenial'') [] ''/dev/nowhere''
   \<and> mkfs (fixture ''xenial'') (Some ''/dev/nowhere'') ''ext4'' False None None False
         ([], []) =
     (Inl (ValueError [apostrophe @ ''/dev/nowhere'' @ ''': no such file or directory'']),
      ([], [PathExists ''/dev/nowhere'']))"
  using
    mkfs_invalid_path
      [of None "fixture ''xenial''" "[]" "''ext4''" False None None False "[]"]
    mkfs_invalid_path
      [of "Some ''/dev/nowhere''" "fixture ''xenial''" "[]" "''ext4''" False None None False
          "[]"]
  by (simp add: fixture_def)

section \<open>The command line of \<open>mkfs\<close>\<close>

lemma seq_extend: "seq (extend cmd r) f = seq r (\<lambda>flags. f (cmd @ flags))"
  by (simp add: seq_def extend_def split: sum.split)

lemma seq_Inr: "seq (Inr x) f = f x"
  by (simp add: seq_def)

lemma seq_Inl: "seq (Inl e) f = Inl e"
  by (simp add: seq_def)

lemma seq_if: "seq (if b then x else y) f = (if b then seq x f else seq y f)"
  by simp

lemma label_step:
  "seq (case label of
          None \<Rightarrow> Inr cmd
        | Some l \<Rightarrow>
            (case lim of
               None \<Rightarrow> Inl e1
             | Some limit \<Rightarrow>
                 if length l > limit then
                   if strict then Inl (e2 limit) else extend cmd (g1 limit l)
                 else extend cmd (g2 l))) k =
   seq (case label of
          None \<Rightarrow> Inr []
        | Some l \<Rightarrow>
            (case lim of
               None \<Rightarrow> Inl e1
             | Some limit \<Rightarrow>
                 if length l > limit then
                   if strict then Inl (e2 limit) else g1 limit l
                 else g2 l)) (\<lambda>x. k (cmd @ x))"
  by (simp add: seq_def extend_def split: option.split sum.split)

lemma cmd_line_steps:
  "mkfs_cmd_line codename c p fstype fam strict label uuid force =
     seq (force_flags codename fstype fam strict force) (\<lambda>f.
     seq (label_flags p fstype fam strict label) (\<lambda>l.
     seq (uuid_flags fam strict uuid) (\<lambda>u.
     seq (fatsize_flags fstype fam strict) (\<lambda>t.
       Inr (c # f @ l @ u @ t @ [p])))))"
proof -
  have force: "\<And>k. seq (if force then
            if \<not> (codename = ''precise'' \<and> fstype = ''btrfs'') then
              extend [c] (get_flag_mapping ''force'' fam None strict)
            else Inr [c]
          else Inr [c]) k = seq (force_flags codename fstype fam strict force) (\<lambda>f. k (c # f))"
    by (simp add: force_flags_def seq_extend seq_Inr)
  have label: "\<And>cmd k. seq (case label of
            None \<Rightarrow> Inr cmd
          | Some l \<Rightarrow>
              (case label_length_limits fam of
                 None \<Rightarrow>
                   Inl (TypeError (''unorderable types: int() > NoneType()''))
               | Some limit \<Rightarrow>
                   if length l > limit then
                     if strict then
                       Inl (raise_ValueError
                              (''length of fs label for '%s' exceeds max ''
                               @ replicate 33 (CHR '' '')
                               @ ''allowed for fstype '%s'. max is '%s'' @ apostrophe)
                              [p, fstype, str_nat limit])
                     else
                       extend cmd
                         (get_flag_mapping ''label'' fam (Some (take limit l)) strict)
                   else
                     extend cmd (get_flag_mapping ''label'' fam (Some l) strict))) k
       = seq (label_flags p fstype fam strict label) (\<lambda>l. k (cmd @ l))"
    unfolding label_flags_def by (rule label_step)
  have uuid: "\<And>cmd k. seq (case uuid of
            None \<Rightarrow> Inr cmd
          | Some u \<Rightarrow> extend cmd (get_flag_mapping ''uuid'' fam (Some u) strict)) k
       = seq (uuid_flags fam strict uuid) (\<lambda>u. k (cmd @ u))"
    unfolding uuid_flags_def
    by (cases uuid) (simp_all only: option.case seq_extend seq_Inr append_Nil2)
  have fat: "\<And>cmd k. seq (if fam = ''fat'' then
            let fat_size = py_strip fstype ascii_letters in
            if fat_size \<in> set [''12'', ''16'', ''32''] then
              extend cmd (get_flag_mapping ''fatsize'' fam (Some fat_size) strict)
            else Inr cmd
          else Inr cmd) k
       = seq (fatsize_flags fstype fam strict) (\<lambda>t. k (cmd @ t))"
    unfolding fatsize_flags_def Let_def
    by (simp only: seq_extend seq_Inr seq_if append_Nil2 split: if_split) blast
  show ?thesis
    unfolding mkfs_cmd_line_def
    by (simp only: force label uuid fat) simp
qed

lemma mkfs_commands_cases:
  assumes "mkfs_commands fstype = Some c"
  shows "(fstype, c) \<in> set
     [(''btrfs'', ''mkfs.btrfs''), (''ext2'', ''mkfs.ext2''), (''ext3'', ''mkfs.ext3''),
      (''ext4'', ''mkfs.ext4''), (''fat'', ''mkfs.fat''), (''fat12'', ''mkfs.fat''),
      (''fat16'', ''mkfs.fat''), (''fat32'', ''mkfs.fat''), (''jfs'', ''jfs_mkfs''),
      (''ntfs'', ''mkntfs''), (''reiserfs'', ''mkfs.reiserfs''), (''swap'', ''mkswap''),
      (''xfs'', ''mkfs.xfs'')]"
  using assms unfolding mkfs_commands_def by (rule map_of_SomeD)

lemma mkfs_commands_nonempty: "mkfs_commands fstype = Some c \<Longrightarrow> c \<noteq> []"
  by (drule mkfs_commands_cases) auto

lemma mkfs_valid:
  assumes "os_path_exists env w p" and "mkfs_commands fstype = Some c"
    and "util_which env w c = Some tool"
  shows "mkfs env (Some p) fstype strict label uuid force (w, tr) =
     (case mkfs_cmd_line (lsb_codename env w) c p fstype
             (case specific_to_family fstype of None \<Rightarrow> fstype | Some f \<Rightarrow> f)
             strict label uuid force of
        Inl e \<Rightarrow>
          (Inl e, (w, tr @ [PathExists p, Which c] @ (if force then [LsbRelease] else [])))
      | Inr cmd \<Rightarrow>
          (map_sum ProcessExecutionError (\<lambda>out. ()) (fst (util_subp env w cmd)),
           (snd (util_subp env w cmd),
            tr @ [PathExists p, Which c] @ (if force then [LsbRelease] else [])
               @ [Subp cmd])))"
proof -
  have ne: "c \<noteq> []" using assms(2) by (rule mkfs_commands_nonempty)
  show ?thesis
    unfolding mkfs_def
    using assms ne
    by (simp add: emit_def subp_def Let_def split: sum.split prod.split)
qed

lemmas run_defs =
  mkfs_def mkfs_cmd_line_def seq_def extend_def get_flag_mapping_def emit_def subp_def
  fixture_def mkfs_commands_def specific_to_family_def label_length_limits_def
  family_flag_mappings_def py_strip_def py_rstrip_def ascii_letters_def Let_def

section \<open>The force flag\<close>

text \<open>
  C4.  On a host where the path exists and the tool is found, with \<open>force\<close> requested:
  when the release codename is \<open>precise\<close> and the type is \<open>btrfs\<close>, the call gives the
  result, the final world and the processes of the same call without \<open>force\<close>, for
  either value of \<open>strict\<close>: no flag is added and no error comes from it.  In every
  other combination the flag is resolved by \<open>get_flag_mapping\<close> for the family: an
  exception of the resolution is the outcome of \<open>mkfs\<close> and no process is started;
  otherwise the resolved tokens follow the tool name in the command that is run, ahead of
  what the call without \<open>force\<close> passes, and a call that fails before it runs a command
  fails in the same way.
\<close>

theorem mkfs_force_flag:
  assumes "os_path_exists env w p" and "mkfs_commands fstype = Some c"
    and "util_which env w c = Some tool"
  shows
    "(lsb_codename env w = ''precise'' \<and> fstype = ''btrfs'' \<longrightarrow>
        fst (mkfs env (Some p) fstype strict label uuid True (w, tr)) =
          fst (mkfs env (Some p) fstype strict label uuid False (w, tr))
        \<and> fst (snd (mkfs env (Some p) fstype strict label uuid True (w, tr))) =
          fst (snd (mkfs env (Some p) fstype strict label uuid False (w, tr)))
        \<and> invoked (snd (snd (mkfs env (Some p) fstype strict label uuid True (w, tr)))) =
          invoked (snd (snd (mkfs env (Some p) fstype strict label uuid False (w, tr)))))
     \<and> (\<not> (lsb_codename env w = ''precise'' \<and> fstype = ''btrfs'') \<longrightarrow>
        (case get_flag_mapping ''force''
                (case specific_to_family fstype of None \<Rightarrow> fstype | Some f \<Rightarrow> f)
                None strict of
           Inl e \<Rightarrow>
             mkfs env (Some p) fstype strict label uuid True (w, tr) =
               (Inl e, (w, tr @ [PathExists p, Which c, LsbRelease]))
         | Inr flags \<Rightarrow>
             (\<forall>rest.
                invoked (snd (snd (mkfs env (Some p) fstype strict label uuid False (w, tr)))) =
                  invoked tr @ [c # rest] \<longrightarrow>
                invoked (snd (snd (mkfs env (Some p) fstype strict label uuid True (w, tr)))) =
                  invoked tr @ [c # flags @ rest])
             \<and> (invoked (snd (snd (mkfs env (Some p) fstype strict label uuid False (w, tr)))) =
                  invoked tr \<longrightarrow>
                mkfs env (Some p) fstype strict label uuid True (w, tr) =
                  (fst (mkfs env (Some p) fstype strict label uuid False (w, tr)),
                   (w, tr @ [PathExists p, Which c, LsbRelease])))))"
proof -
  define fam where "fam = (case specific_to_family fstype of None \<Rightarrow> fstype | Some f \<Rightarrow> f)"
  note run = mkfs_valid [OF assms, unfolded cmd_line_steps, folded fam_def]
  define special where "special \<longleftrightarrow> lsb_codename env w = ''precise'' \<and> fstype = ''btrfs''"
  have force: "force_flags (lsb_codename env w) fstype fam strict force =
                 (if force \<and> \<not> special then get_flag_mapping ''force'' fam None strict
                  else Inr [])" for force
    by (simp add: force_flags_def special_def)
  show ?thesis
    unfolding run fam_def [symmetric] special_def [symmetric] force
    by (cases special;
        cases "label_flags p fstype fam strict label";
        cases "uuid_flags fam strict uuid";
        cases "fatsize_flags fstype fam strict";
        cases "get_flag_mapping ''force'' fam None strict")
       (simp_all add: seq_def invoked_append)
qed

theorem mkfs_force_flag_witness:
  "os_path_exists (fixture ''precise'') [] ''/dev/x''
   \<and> mkfs_commands ''btrfs'' = Some ''mkfs.btrfs''
   \<and> util_which (fixture ''precise'') [] ''mkfs.btrfs'' = Some ''/sbin/mkfs.btrfs''
   \<and> lsb_codename (fixture ''precise'') [] = ''precise''
   \<and> lsb_codename (fixture ''xenial'') [] \<noteq> ''precise''
   \<and> get_flag_mapping ''force'' ''btrfs'' None True = Inr [''--force'']
   \<and> invoked (snd (snd (mkfs (fixture ''precise'') (Some ''/dev/x'') ''btrfs'' True None
                           (Some ''0a1b'') False ([], [])))) =
       [[''mkfs.btrfs'', ''--uuid'', ''0a1b'', ''/dev/x'']]
   \<and> invoked (snd (snd (mkfs (fixture ''precise'') (Some ''/dev/x'') ''btrfs'' True None
                           (Some ''0a1b'') True ([], [])))) =
       [[''mkfs.btrfs'', ''--uuid'', ''0a1b'', ''/dev/x'']]
   \<and> invoked (snd (snd (mkfs (fixture ''xenial'') (Some ''/dev/x'') ''btrfs'' True None
                           (Some ''0a1b'') True ([], [])))) =
       [[''mkfs.btrfs'', ''--force'', ''--uuid'', ''0a1b'', ''/dev/x'']]"
proof -
  have base:
    "invoked (snd (snd (mkfs (fixture cn) (Some ''/dev/x'') ''btrfs'' True None
                           (Some ''0a1b'') False ([], [])))) =
       [[''mkfs.btrfs'', ''--uuid'', ''0a1b'', ''/dev/x'']]" for cn
    by (simp add: run_defs)
  have force: "get_flag_mapping ''force'' ''btrfs'' None True = Inr [''--force'']"
    by (simp add: get_flag_mapping_def family_flag_mappings_def)
  have tables: "mkfs_commands ''btrfs'' = Some ''mkfs.btrfs''"
    "specific_to_family ''btrfs'' = None"
    by (simp_all add: mkfs_commands_def specific_to_family_def)
  have host: "os_path_exists (fixture cn) [] ''/dev/x''"
    "util_which (fixture cn) [] ''mkfs.btrfs'' = Some ''/sbin/mkfs.btrfs''"
    "lsb_codename (fixture cn) [] = cn" for cn
    by (simp_all add: fixture_def)
  show ?thesis
    using
      mkfs_force_flag [OF host(1) tables(1) host(2), of "''precise''" True None "Some ''0a1b''" "[]"]
      mkfs_force_flag [OF host(1) tables(1) host(2), of "''xenial''" True None "Some ''0a1b''" "[]"]
    by (simp add: base force tables host)
qed

lemma py_format_literal:
  assumes "CHR ''%'' \<notin> set pre"
  shows "py_format (pre @ cs) as = map_sum id ((@) pre) (py_format cs as)"
  using assms
proof (induction pre)
  case Nil
  show ?case by (simp add: sum.map_ident)
next
  case (Cons a pre)
  then show ?case by (cases "py_format cs as") auto
qed

lemma label_too_long_message:
  \<open>raise_ValueError
     (''length of fs label for '%s' exceeds max '' @ replicate 33 (CHR '' '')
      @ ''allowed for fstype '%s'. max is '%s'' @ apostrophe)
     [p, fstype, limit] =
   ValueError
     [''length of fs label for '' @ apostrophe @ p @ ''' exceeds max ''
      @ replicate 33 (CHR '' '') @ ''allowed for fstype '' @ apostrophe @ fstype
      @ '''. max is '' @ apostrophe @ limit @ apostrophe]\<close>
  by (simp add: raise_ValueError_def py_format_literal)

lemma label_token_exists:
  assumes "label_length_limits fam = Some L"
  shows "\<exists>m tok. family_flag_mappings ''label'' = Some m \<and> m fam = Some tok"
proof -
  have "(fam, L) \<in> set [(''btrfs'', 256), (''ext'', 16), (''fat'', 11), (''jfs'', 16),
                        (''ntfs'', 32), (''reiserfs'', 16), (''swap'', 15), (''xfs'', 12)]"
    using assms unfolding label_length_limits_def by (rule map_of_SomeD)
  then have "fam \<in> set [''btrfs'', ''ext'', ''fat'', ''jfs'', ''ntfs'', ''reiserfs'', ''swap'', ''xfs'']"
    by auto
  then show ?thesis
    by (auto simp: family_flag_mappings_def)
qed

lemma get_flag_mapping_nonstrict:
  assumes "family_flag_mappings flag = Some m"
  shows "get_flag_mapping flag fam param False =
           Inr (case m fam of None \<Rightarrow> []
                | Some tok \<Rightarrow> tok # (case param of None \<Rightarrow> [] | Some v \<Rightarrow> [v]))"
  using assms by (simp add: get_flag_mapping_def split: option.split)

lemma get_flag_mapping_supported:
  assumes "family_flag_mappings flag = Some m" and "m fam = Some tok"
  shows "get_flag_mapping flag fam param strict =
           Inr (tok # (case param of None \<Rightarrow> [] | Some v \<Rightarrow> [v]))"
  using assms by (simp add: get_flag_mapping_def)

lemma known_flags:
  "\<exists>m. family_flag_mappings ''force'' = Some m"
  "\<exists>m. family_flag_mappings ''uuid'' = Some m"
  "\<exists>m. family_flag_mappings ''fatsize'' = Some m"
  "\<exists>m. family_flag_mappings ''label'' = Some m"
  by (simp_all add: family_flag_mappings_def)

lemma nonstrict_steps:
  "\<exists>flags. force_flags codename fstype fam False force = Inr flags"
  "\<exists>flags. uuid_flags fam False uuid = Inr flags"
  "\<exists>flags. fatsize_flags fstype fam False = Inr flags"
  using known_flags
  by (auto simp: force_flags_def uuid_flags_def fatsize_flags_def
        get_flag_mapping_nonstrict split: option.split)

section \<open>Labels longer than the limit\<close>

text \<open>
  C5.  For a type whose family has the label limit \<open>L\<close> and a label of length \<open>L + k\<close>
  with \<open>k > 0\<close>, on a host where the path exists and the tool is found: the non-strict call
  runs a command made of the tool name, the family's label token followed by the first
  \<open>L\<close> characters of the label (a parameter of length exactly \<open>L\<close>) among the other
  flags, and the path last.  The strict call, provided the force step before it raises
  nothing, raises the \<open>ValueError\<close> whose message names the path, the type and the
  limit, and runs no command.
\<close>

theorem mkfs_label_too_long:
  assumes "os_path_exists env w p" and "mkfs_commands fstype = Some c"
    and "util_which env w c = Some tool"
    and "label_length_limits
           (case specific_to_family fstype of None \<Rightarrow> fstype | Some f \<Rightarrow> f) = Some L"
    and "length label = L + k" and "0 < k"
  shows
    \<open>(\<exists>tok pre post.
        (\<exists>m. family_flag_mappings ''label'' = Some m
           \<and> m (case specific_to_family fstype of None \<Rightarrow> fstype | Some f \<Rightarrow> f) = Some tok)
        \<and> invoked (snd (snd (mkfs env (Some p) fstype False (Some label) uuid force (w, tr)))) =
            invoked tr @ [c # pre @ [tok, take L label] @ post @ [p]]
        \<and> length (take L label) = L)
     \<and> ((force \<and> \<not> (lsb_codename env w = ''precise'' \<and> fstype = ''btrfs'') \<longrightarrow>
           (\<exists>flags. get_flag_mapping ''force''
                      (case specific_to_family fstype of None \<Rightarrow> fstype | Some f \<Rightarrow> f)
                      None True = Inr flags)) \<longrightarrow>
         mkfs env (Some p) fstype True (Some label) uuid force (w, tr) =
           (Inl (ValueError
                   [''length of fs label for '' @ apostrophe @ p @ ''' exceeds max ''
                    @ replicate 33 (CHR '' '') @ ''allowed for fstype '' @ apostrophe
                    @ fstype @ '''. max is '' @ apostrophe @ str_nat L @ apostrophe]),
            (w, tr @ [PathExists p, Which c] @ (if force then [LsbRelease] else []))))\<close>
proof -
  define fam where "fam = (case specific_to_family fstype of None \<Rightarrow> fstype | Some f \<Rightarrow> f)"
  note run = mkfs_valid [OF assms(1-3), unfolded cmd_line_steps, folded fam_def]
  have limit: "label_length_limits fam = Some L"
    using assms(4) by (simp add: fam_def)
  obtain m tok where tok: "family_flag_mappings ''label'' = Some m" "m fam = Some tok"
    using label_token_exists [OF limit] by blast
  have long: "L < length label" using assms(5,6) by simp
  have loose: "label_flags p fstype fam False (Some label) = Inr [tok, take L label]"
    using limit long by (simp add: label_flags_def get_flag_mapping_supported [OF tok])
  obtain pre u t where steps:
    "force_flags (lsb_codename env w) fstype fam False force = Inr pre"
    "uuid_flags fam False uuid = Inr u" "fatsize_flags fstype fam False = Inr t"
    using nonstrict_steps by metis
  have "invoked (snd (snd (mkfs env (Some p) fstype False (Some label) uuid force (w, tr)))) =
          invoked tr @ [c # pre @ [tok, take L label] @ (u @ t) @ [p]]"
    by (simp add: run loose steps seq_def invoked_append)
  moreover have "length (take L label) = L" using long by simp
  ultimately have first:
    "\<exists>tok pre post.
        (\<exists>m. family_flag_mappings ''label'' = Some m \<and> m fam = Some tok)
        \<and> invoked (snd (snd (mkfs env (Some p) fstype False (Some label) uuid force (w, tr)))) =
            invoked tr @ [c # pre @ [tok, take L label] @ post @ [p]]
        \<and> length (take L label) = L"
    using tok by blast
  have strict: "label_flags p fstype fam True (Some label) =
      Inl (ValueError
             [''length of fs label for '' @ apostrophe @ p @ ''' exceeds max ''
              @ replicate 33 (CHR '' '') @ ''allowed for fstype '' @ apostrophe
              @ fstype @ '''. max is '' @ apostrophe @ str_nat L @ apostrophe])"
    using limit long unfolding label_flags_def
    by (simp only: option.case if_True label_too_long_message)
  have second:
    "mkfs env (Some p) fstype True (Some label) uuid force (w, tr) =
           (Inl (ValueError
                   [''length of fs label for '' @ apostrophe @ p @ ''' exceeds max ''
                    @ replicate 33 (CHR '' '') @ ''allowed for fstype '' @ apostrophe
                    @ fstype @ '''. max is '' @ apostrophe @ str_nat L @ apostrophe]),
            (w, tr @ [PathExists p, Which c] @ (if force then [LsbRelease] else [])))"
    if "force \<and> \<not> (lsb_codename env w = ''precise'' \<and> fstype = ''btrfs'') \<longrightarrow>
           (\<exists>flags. get_flag_mapping ''force'' fam None True = Inr flags)"
  proof -
    have "\<exists>flags. force_flags (lsb_codename env w) fstype fam True force = Inr flags"
      using that by (auto simp: force_flags_def)
    then obtain flags where
      "force_flags (lsb_codename env w) fstype fam True force = Inr flags" ..
    then show ?thesis
      unfolding run strict by (simp only: seq_Inr seq_Inl sum.case)
  qed
  show ?thesis
    using first second unfolding fam_def by blast
qed

theorem mkfs_label_too_long_witness:
  \<open>os_path_exists (fixture ''xenial'') [] ''/dev/x''
   \<and> mkfs_commands ''ext4'' = Some ''mkfs.ext4''
   \<and> util_which (fixture ''xenial'') [] ''mkfs.ext4'' = Some ''/sbin/mkfs.ext4''
   \<and> label_length_limits ''ext'' = Some 16
   \<and> length ''toolongname1234567'' = 16 + 2
   \<and> get_flag_mapping ''force'' ''ext'' None True = Inr [''-F'']
   \<and> invoked (snd (snd (mkfs (fixture ''xenial'') (Some ''/dev/x'') ''ext4'' False
                           (Some ''toolongname1234567'') None True ([], [])))) =
       [[''mkfs.ext4'', ''-F'', ''-L'', ''toolongname12345'', ''/dev/x'']]
   \<and> mkfs (fixture ''xenial'') (Some ''/dev/x'') ''ext4'' True
         (Some ''toolongname1234567'') None True ([], []) =
       (Inl (ValueError
               [''length of fs label for '/dev/x' exceeds max ''
                @ replicate 33 (CHR '' '')
                @ ''allowed for fstype 'ext4'. max is '16'' @ apostrophe]),
        ([], [PathExists ''/dev/x'', Which ''mkfs.ext4'', LsbRelease]))\<close>
proof -
  have loose:
    "invoked (snd (snd (mkfs (fixture ''xenial'') (Some ''/dev/x'') ''ext4'' False
                           (Some ''toolongname1234567'') None True ([], [])))) =
       [[''mkfs.ext4'', ''-F'', ''-L'', ''toolongname12345'', ''/dev/x'']]"
    by (simp add: run_defs)
  have force: "get_flag_mapping ''force'' ''ext'' None True = Inr [''-F'']"
    by (simp add: get_flag_mapping_def family_flag_mappings_def)
  have tables: "mkfs_commands ''ext4'' = Some ''mkfs.ext4''"
    "specific_to_family ''ext4'' = Some ''ext''"
    "label_length_limits ''ext'' = Some 16"
    by (simp_all add: mkfs_commands_def specific_to_family_def label_length_limits_def)
  have limit: "label_length_limits
      (case specific_to_family ''ext4'' of None \<Rightarrow> ''ext4'' | Some f \<Rightarrow> f) = Some 16"
    by (simp add: tables)
  have host: "os_path_exists (fixture ''xenial'') [] ''/dev/x''"
    "util_which (fixture ''xenial'') [] ''mkfs.ext4'' = Some ''/sbin/mkfs.ext4''"
    by (simp_all add: fixture_def)
  have len: "length ''toolongname1234567'' = 16 + 2" and pos: "(0::nat) < 2"
    by simp_all
  have sixteen: "str_nat 16 = ''16''"
    by (simp add: str_nat.simps)
  show ?thesis
    using mkfs_label_too_long [OF host(1) tables(1) host(2) limit len pos, of None True "[]"]
    by (simp add: loose force tables host sixteen)
qed

lemma fat_family_members:
  assumes "(case specific_to_family fstype of None \<Rightarrow> fstype | Some f \<Rightarrow> f) = ''fat''"
  shows "fstype \<in> set [''fat'', ''fat12'', ''fat16'', ''fat32'']"
proof (cases "specific_to_family fstype")
  case None
  then show ?thesis using assms by simp
next
  case (Some f)
  then have "(fstype, f) \<in> set [(''ext2'', ''ext''), (''ext3'', ''ext''), (''ext4'', ''ext''),
                                 (''fat12'', ''fat''), (''fat16'', ''fat''), (''fat32'', ''fat'')]"
    unfolding specific_to_family_def by (rule map_of_SomeD)
  moreover have "f = ''fat''" using assms Some by simp
  ultimately show ?thesis by auto
qed

lemma fat_sizes:
  "py_strip ''fat'' ascii_letters = []"
  "py_strip ''fat12'' ascii_letters = ''12''"
  "py_strip ''fat16'' ascii_letters = ''16''"
  "py_strip ''fat32'' ascii_letters = ''32''"
  by (simp_all add: py_strip_def py_rstrip_def ascii_letters_def)

lemma fat_family_steps:
  assumes "fstype \<in> set [''fat'', ''fat12'', ''fat16'', ''fat32'']"
  shows "mkfs_commands fstype = Some ''mkfs.fat''"
    and "(case specific_to_family fstype of None \<Rightarrow> fstype | Some f \<Rightarrow> f) = ''fat''"
    and "fatsize_flags fstype ''fat'' strict =
           Inr (if py_strip fstype ascii_letters \<in> {''12'', ''16'', ''32''}
                then [''-F'', py_strip fstype ascii_letters] else [])"
  using assms
  by (auto simp: mkfs_commands_def specific_to_family_def fatsize_flags_def fat_sizes
        get_flag_mapping_def family_flag_mappings_def)

lemma fat_label_flags:
  assumes "\<not> (strict \<and> (\<exists>l. label = Some l \<and> 11 < length l))"
  shows "label_flags p fstype ''fat'' strict label =
           Inr (case label of None \<Rightarrow> [] | Some l \<Rightarrow> [''-n'', take 11 l])"
  using assms
  by (cases label)
     (auto simp: label_flags_def label_length_limits_def get_flag_mapping_def
        family_flag_mappings_def)

lemma fat_other_flags:
  "\<not> (strict \<and> force) \<Longrightarrow> force_flags codename fstype ''fat'' strict force = Inr []"
  "\<not> (strict \<and> uuid \<noteq> None) \<Longrightarrow> uuid_flags ''fat'' strict uuid = Inr []"
  by (cases uuid;
      auto simp: force_flags_def uuid_flags_def get_flag_mapping_def family_flag_mappings_def)+

section \<open>The FAT size flag\<close>

text \<open>
  C6.  For every type of the family \<open>fat\<close>, on a host where the path exists and the tool
  is found, and when no earlier step raises in strict mode: the command that is run
  carries \<open>-F\<close> and the type's numeric suffix exactly when that suffix (the type stripped
  of ASCII letters) is \<open>12\<close>, \<open>16\<close> or \<open>32\<close>; for any other suffix, the empty one of
  \<open>fat\<close> included, nothing is added.  Either way the outcome of \<open>mkfs\<close> is the outcome
  of that process: the step raises nothing.
\<close>

theorem mkfs_fatsize:
  assumes "os_path_exists env w p"
    and "(case specific_to_family fstype of None \<Rightarrow> fstype | Some f \<Rightarrow> f) = ''fat''"
    and "util_which env w ''mkfs.fat'' = Some tool"
    and "\<not> (strict \<and> (force \<or> uuid \<noteq> None \<or> (\<exists>l. label = Some l \<and> 11 < length l)))"
  shows
    "(let cmd = [''mkfs.fat'']
               @ (case label of None \<Rightarrow> [] | Some l \<Rightarrow> [''-n'', take 11 l])
               @ (if py_strip fstype ascii_letters \<in> {''12'', ''16'', ''32''}
                  then [''-F'', py_strip fstype ascii_letters] else [])
               @ [p]
      in invoked (snd (snd (mkfs env (Some p) fstype strict label uuid force (w, tr)))) =
           invoked tr @ [cmd]
         \<and> fst (mkfs env (Some p) fstype strict label uuid force (w, tr)) =
           map_sum ProcessExecutionError (\<lambda>out. ()) (fst (util_subp env w cmd)))"
proof -
  have member: "fstype \<in> set [''fat'', ''fat12'', ''fat16'', ''fat32'']"
    using assms(2) by (rule fat_family_members)
  note fat = fat_family_steps [OF member]
  note run = mkfs_valid [OF assms(1) fat(1) assms(3), unfolded cmd_line_steps fat(2)]
  have steps:
    "force_flags (lsb_codename env w) fstype ''fat'' strict force = Inr []"
    "uuid_flags ''fat'' strict uuid = Inr []"
    "label_flags p fstype ''fat'' strict label =
       Inr (case label of None \<Rightarrow> [] | Some l \<Rightarrow> [''-n'', take 11 l])"
    using assms(4) by (simp_all add: fat_other_flags fat_label_flags)
  show ?thesis
    unfolding run steps fat(3) Let_def
    by (simp add: seq_def invoked_append)
qed

theorem mkfs_fatsize_witness:
  "os_path_exists (fixture ''xenial'') [] ''/dev/x''
   \<and> specific_to_family ''fat32'' = Some ''fat''
   \<and> specific_to_family ''fat'' = None
   \<and> util_which (fixture ''xenial'') [] ''mkfs.fat'' = Some ''/sbin/mkfs.fat''
   \<and> invoked (snd (snd (mkfs (fixture ''xenial'') (Some ''/dev/x'') ''fat32'' False
                           (Some ''EFI'') None True ([], [])))) =
       [[''mkfs.fat'', ''-n'', ''EFI'', ''-F'', ''32'', ''/dev/x'']]
   \<and> invoked (snd (snd (mkfs (fixture ''xenial'') (Some ''/dev/x'') ''fat'' True
                           None None False ([], [])))) =
       [[''mkfs.fat'', ''/dev/x'']]"
proof -
  have tables: "specific_to_family ''fat32'' = Some ''fat''" "specific_to_family ''fat'' = None"
    by (simp_all add: specific_to_family_def)
  have host: "os_path_exists (fixture ''xenial'') [] ''/dev/x''"
    "util_which (fixture ''xenial'') [] ''mkfs.fat'' = Some ''/sbin/mkfs.fat''"
    by (simp_all add: fixture_def)
  have fam: "(case specific_to_family ''fat32'' of None \<Rightarrow> ''fat32'' | Some f \<Rightarrow> f) = ''fat''"
    "(case specific_to_family ''fat'' of None \<Rightarrow> ''fat'' | Some f \<Rightarrow> f) = ''fat''"
    by (simp_all add: tables)
  have ok: "\<not> (False \<and> (True \<or> (None :: string option) \<noteq> None
                \<or> (\<exists>l. Some ''EFI'' = Some l \<and> 11 < length l)))"
    "\<not> (True \<and> (False \<or> (None :: string option) \<noteq> None
                \<or> (\<exists>l. (None :: string option) = Some l \<and> 11 < length l)))"
    by simp_all
  show ?thesis
    using mkfs_fatsize [OF host(1) fam(1) host(2) ok(1), of "[]"]
      mkfs_fatsize [OF host(1) fam(2) host(2) ok(2), of "[]"]
    by (simp add: tables host py_strip_def py_rstrip_def ascii_letters_def Let_def)
qed

section \<open>The operations of \<open>curtin/gpg.py\<close>\<close>

lemma gpg_export_armour_run:
  \<open>gpg_export_armour env key (w, tr) =
     (case util_subp env w [''gpg'', ''--export'', ''--armour'', key] of
        (Inr (armour, err), w') \<Rightarrow>
          (Some armour, (w', tr @ [Subp [''gpg'', ''--export'', ''--armour'', key]]))
      | (Inl failure, w') \<Rightarrow>
          (None, (w', tr @ [Subp [''gpg'', ''--export'', ''--armour'', key],
                            Log Debug ''Failed to export armoured key "%s": %s''
                              [key, failure]])))\<close>
  by (simp add: gpg_export_armour_def subp_def emit_def split: prod.split sum.split)

lemma import_failure_message:
  \<open>raise_ValueError ''Failed to import key "%s" from server "%s" - error %s''
     [key, keyserver, failure] =
   ValueError [''Failed to import key "'' @ key @ ''" from server "'' @ keyserver
               @ ''" - error '' @ failure]\<close>
  by (simp add: raise_ValueError_def)

lemma gpg_recv_key_run:
  \<open>gpg_recv_key env key keyserver (w, tr) =
     (case util_subp env w [''gpg'', ''--keyserver'', keyserver, ''--recv'', key] of
        (Inr out, w') \<Rightarrow>
          (Inr (), (w', tr @ [Log Debug ''Receive gpg key "%s"'' [key],
                             Subp [''gpg'', ''--keyserver'', keyserver, ''--recv'', key]]))
      | (Inl failure, w') \<Rightarrow>
          (Inl (ValueError [''Failed to import key "'' @ key @ ''" from server "''
                            @ keyserver @ ''" - error '' @ failure]),
           (w', tr @ [Log Debug ''Receive gpg key "%s"'' [key],
                      Subp [''gpg'', ''--keyserver'', keyserver, ''--recv'', key]])))\<close>
  unfolding gpg_recv_key_def import_failure_message
  by (simp add: subp_def emit_def split: prod.split sum.split)

lemma gpg_delete_key_run:
  \<open>gpg_delete_key env key (w, tr) =
     (case util_subp env w [''gpg'', ''--batch'', ''--yes'', ''--delete-keys'', key] of
        (Inr out, w') \<Rightarrow>
          (w', tr @ [Subp [''gpg'', ''--batch'', ''--yes'', ''--delete-keys'', key]])
      | (Inl failure, w') \<Rightarrow>
          (w', tr @ [Subp [''gpg'', ''--batch'', ''--yes'', ''--delete-keys'', key],
                     Log Warn ''Failed delete key "%s": %s'' [key, failure]]))\<close>
  by (simp add: gpg_delete_key_def subp_def emit_def split: prod.split sum.split)

text \<open>Each operation extends the trace by events that depend on the world alone.\<close>

lemma gpg_export_armour_trace:
  "\<exists>new. snd (snd (gpg_export_armour env key (w, tr))) = tr @ new
     \<and> invoked new = [[''gpg'', ''--export'', ''--armour'', key]]
     \<and> (\<forall>ur. gpg_export_armour env key (w, ur) =
            (fst (gpg_export_armour env key (w, tr)),
             (fst (snd (gpg_export_armour env key (w, tr))), ur @ new)))"
  by (simp add: gpg_export_armour_run split: prod.split sum.split)

lemma gpg_recv_key_trace:
  "\<exists>new. snd (snd (gpg_recv_key env key ks (w, tr))) = tr @ new
     \<and> invoked new = [[''gpg'', ''--keyserver'', ks, ''--recv'', key]]
     \<and> (\<forall>ur. gpg_recv_key env key ks (w, ur) =
            (fst (gpg_recv_key env key ks (w, tr)),
             (fst (snd (gpg_recv_key env key ks (w, tr))), ur @ new)))"
  by (simp add: gpg_recv_key_run split: prod.split sum.split)

lemma gpg_delete_key_trace:
  "\<exists>new. snd (gpg_delete_key env key (w, tr)) = tr @ new
     \<and> invoked new = [[''gpg'', ''--batch'', ''--yes'', ''--delete-keys'', key]]
     \<and> (\<forall>ur. gpg_delete_key env key (w, ur) =
            (fst (gpg_delete_key env key (w, tr)), ur @ new))"
  by (simp add: gpg_delete_key_run split: prod.split sum.split)

lemma getkeybyid_absent:
  assumes "gpg_export_armour env keyid s = (armour, s1)"
    and "armour = None \<or> armour = Some []"
  shows "gpg_getkeybyid env keyid ks s = fetch_then_delete env keyid ks s1"
  using assms
  by (auto simp: gpg_getkeybyid_def fetch_then_delete_def split: prod.split sum.split option.split)

lemma getkeybyid_present:
  assumes "gpg_export_armour env keyid s = (Some text, s1)" and "text \<noteq> []"
  shows "gpg_getkeybyid env keyid ks s = (Inr (py_rstrip text newline), s1)"
  using assms by (simp add: gpg_getkeybyid_def)

lemma fetch_then_delete_trace:
  "\<exists>new. snd (snd (fetch_then_delete env keyid ks (w, tr))) = tr @ new
     \<and> invoked new =
         [''gpg'', ''--keyserver'', ks, ''--recv'', keyid]
         # (case fst (gpg_recv_key env keyid ks (w, tr)) of
              Inl e \<Rightarrow> []
            | Inr done \<Rightarrow> [[''gpg'', ''--export'', ''--armour'', keyid]])
         @ [[''gpg'', ''--batch'', ''--yes'', ''--delete-keys'', keyid]]
     \<and> (\<forall>ur. fetch_then_delete env keyid ks (w, ur) =
            (fst (fetch_then_delete env keyid ks (w, tr)),
             (fst (snd (fetch_then_delete env keyid ks (w, tr))), ur @ new)))"
proof -
  obtain r1 w1 where recv:
    "util_subp env w [''gpg'', ''--keyserver'', ks, ''--recv'', keyid] = (r1, w1)"
    by force
  show ?thesis
  proof (cases r1)
    case (Inl failure)
    obtain r3 w3 where del:
      "util_subp env w1 [''gpg'', ''--batch'', ''--yes'', ''--delete-keys'', keyid] = (r3, w3)"
      by force
    show ?thesis
      using recv Inl del
      by (cases r3)
         (simp_all add: fetch_then_delete_def gpg_recv_key_run gpg_delete_key_run emit_def)
  next
    case (Inr out)
    obtain r2 w2 where exp:
      "util_subp env w1 [''gpg'', ''--export'', ''--armour'', keyid] = (r2, w2)"
      by force
    obtain r3 w3 where del:
      "util_subp env w2 [''gpg'', ''--batch'', ''--yes'', ''--delete-keys'', keyid] = (r3, w3)"
      by force
    show ?thesis
      using recv Inr exp del
      by (cases r2; cases r3)
         (simp_all add: fetch_then_delete_def gpg_recv_key_run gpg_export_armour_run
            gpg_delete_key_run split: prod.split)
  qed
qed

lemma py_rstrip_newline:
  "\<exists>n. text = py_rstrip text newline @ replicate n (CHR 0x0A)"
  "py_rstrip text newline = [] \<or> last (py_rstrip text newline) \<noteq> CHR 0x0A"
proof -
  let ?P = "\<lambda>c. c \<in> set newline"
  have "rev text = takeWhile ?P (rev text) @ dropWhile ?P (rev text)"
    by simp
  then have "text = rev (dropWhile ?P (rev text)) @ rev (takeWhile ?P (rev text))"
    by (metis rev_append rev_rev_ident)
  moreover have "rev (takeWhile ?P (rev text)) =
      replicate (length (takeWhile ?P (rev text))) (CHR 0x0A)"
  proof -
    have "\<forall>c \<in> set (rev (takeWhile ?P (rev text))). c = CHR 0x0A"
      by (auto dest: set_takeWhileD)
    then have "replicate (length (rev (takeWhile ?P (rev text)))) (CHR 0x0A) =
        rev (takeWhile ?P (rev text))"
      by (rule replicate_length_same)
    then show ?thesis by simp
  qed
  ultimately show "\<exists>n. text = py_rstrip text newline @ replicate n (CHR 0x0A)"
    unfolding py_rstrip_def by metis
  show "py_rstrip text newline = [] \<or> last (py_rstrip text newline) \<noteq> CHR 0x0A"
  proof (cases "dropWhile ?P (rev text)")
    case Nil
    then show ?thesis by (simp add: py_rstrip_def)
  next
    case (Cons c cs)
    then have "\<not> ?P (hd (dropWhile ?P (rev text)))"
      using hd_dropWhile [of ?P "rev text"] by simp
    then show ?thesis using Cons by (simp add: py_rstrip_def)
  qed
qed

lemmas gpg_defs =
  gpg_getkeybyid_def gpg_export_armour_def gpg_recv_key_def gpg_delete_key_def subp_def
  emit_def fixture_def default_keyserver_def raise_ValueError_def py_rstrip_def Let_def

section \<open>A failed receive\<close>

text \<open>
  C3.  When the first export yields nothing and the process started by \<open>gpg_recv_key\<close>
  fails, \<open>gpg_recv_key\<close> and with it \<open>gpg_getkeybyid\<close> raise the \<open>ValueError\<close> whose
  message names the key, the keyserver and the text of the process error; before
  \<open>gpg_getkeybyid\<close> is left, the delete process has been started, right after the receive.
\<close>

theorem gpg_recv_failure:
  assumes "gpg_export_armour env keyid s = (armour, s1)"
    and "armour = None \<or> armour = Some []"
    and "util_subp env (fst s1) [''gpg'', ''--keyserver'', keyserver, ''--recv'', keyid] =
           (Inl failure, w2)"
  shows
    \<open>fst (gpg_recv_key env keyid keyserver s1) =
       Inl (ValueError [''Failed to import key "'' @ keyid @ ''" from server "''
                        @ keyserver @ ''" - error '' @ failure])
     \<and> fst (gpg_getkeybyid env keyid keyserver s) =
       Inl (ValueError [''Failed to import key "'' @ keyid @ ''" from server "''
                        @ keyserver @ ''" - error '' @ failure])
     \<and> invoked (snd (snd (gpg_getkeybyid env keyid keyserver s))) =
       invoked (snd s1)
       @ [[''gpg'', ''--keyserver'', keyserver, ''--recv'', keyid],
          [''gpg'', ''--batch'', ''--yes'', ''--delete-keys'', keyid]]\<close>
proof -
  obtain w1 tr1 where s1: "s1 = (w1, tr1)" by (cases s1)
  have recv: "util_subp env w1 [''gpg'', ''--keyserver'', keyserver, ''--recv'', keyid] =
                (Inl failure, w2)"
    using assms(3) s1 by simp
  obtain r3 w3 where del:
    "util_subp env w2 [''gpg'', ''--batch'', ''--yes'', ''--delete-keys'', keyid] = (r3, w3)"
    by force
  show ?thesis
    unfolding getkeybyid_absent [OF assms(1,2)] s1
    using recv del
    by (cases r3)
       (simp_all add: fetch_then_delete_def gpg_recv_key_run gpg_delete_key_run emit_def
          invoked_append)
qed

theorem gpg_recv_failure_witness:
  \<open>gpg_export_armour (fixture ''xenial'') ''K1''
       ([Inl ''nothing exported'', Inl ''keyserver timed out'', Inr ([], [])], []) =
     (None,
      ([Inl ''keyserver timed out'', Inr ([], [])],
       [Subp [''gpg'', ''--export'', ''--armour'', ''K1''],
        Log Debug ''Failed to export armoured key "%s": %s'' [''K1'', ''nothing exported'']]))
   \<and> util_subp (fixture ''xenial'') [Inl ''keyserver timed out'', Inr ([], [])]
         [''gpg'', ''--keyserver'', ''keys.example.org'', ''--recv'', ''K1''] =
       (Inl ''keyserver timed out'', [Inr ([], [])])
   \<and> fst (gpg_getkeybyid (fixture ''xenial'') ''K1'' ''keys.example.org''
            ([Inl ''nothing exported'', Inl ''keyserver timed out'', Inr ([], [])], [])) =
       Inl (ValueError
              [''Failed to import key "K1" from server "keys.example.org" - error keyserver timed out''])
   \<and> invoked (snd (snd (gpg_getkeybyid (fixture ''xenial'') ''K1'' ''keys.example.org''
            ([Inl ''nothing exported'', Inl ''keyserver timed out'', Inr ([], [])], [])))) =
       [[''gpg'', ''--export'', ''--armour'', ''K1''],
        [''gpg'', ''--keyserver'', ''keys.example.org'', ''--recv'', ''K1''],
        [''gpg'', ''--batch'', ''--yes'', ''--delete-keys'', ''K1'']]\<close>
proof -
  have first: \<open>gpg_export_armour (fixture ''xenial'') ''K1''
       ([Inl ''nothing exported'', Inl ''keyserver timed out'', Inr ([], [])], []) =
     (None,
      ([Inl ''keyserver timed out'', Inr ([], [])],
       [Subp [''gpg'', ''--export'', ''--armour'', ''K1''],
        Log Debug ''Failed to export armoured key "%s": %s'' [''K1'', ''nothing exported'']]))\<close>
    by (simp add: gpg_defs)
  have absent: "(None :: string option) = None \<or> (None :: string option) = Some []"
    by simp
  have recv: "util_subp (fixture ''xenial'')
       (fst ([Inl ''keyserver timed out'', Inr ([], [])],
             [Subp [''gpg'', ''--export'', ''--armour'', ''K1''],
              Log Debug ''Failed to export armoured key \"%s\": %s''
                [''K1'', ''nothing exported'']]))
       [''gpg'', ''--keyserver'', ''keys.example.org'', ''--recv'', ''K1''] =
       (Inl ''keyserver timed out'', [Inr ([], [])])"
    by (simp add: fixture_def)
  show ?thesis
    using gpg_recv_failure [OF first absent recv] first recv
    by (simp add: invoked_append)
qed

section \<open>The cleanup after a receive attempt\<close>

text \<open>
  C2, the claim as stated fails: a first export that succeeds with an empty output is
  followed by a receive and a delete.
\<close>

theorem gpg_delete_after_successful_empty_export:
  \<open>util_subp (fixture ''xenial'')
       [Inr ([], []), Inr ([], []), Inr (''KEY'', []), Inr ([], [])]
       [''gpg'', ''--export'', ''--armour'', ''K1''] =
     (Inr ([], []), [Inr ([], []), Inr (''KEY'', []), Inr ([], [])])
   \<and> fst (gpg_export_armour (fixture ''xenial'') ''K1''
            ([Inr ([], []), Inr ([], []), Inr (''KEY'', []), Inr ([], [])], [])) = Some []
   \<and> invoked (snd (snd (gpg_getkeybyid (fixture ''xenial'') ''K1'' default_keyserver
                          ([Inr ([], []), Inr ([], []), Inr (''KEY'', []), Inr ([], [])], [])))) =
       [[''gpg'', ''--export'', ''--armour'', ''K1''],
        [''gpg'', ''--keyserver'', ''keyserver.ubuntu.com'', ''--recv'', ''K1''],
        [''gpg'', ''--export'', ''--armour'', ''K1''],
        [''gpg'', ''--batch'', ''--yes'', ''--delete-keys'', ''K1'']]\<close>
  by (simp add: gpg_defs)

text \<open>
  C2, amended.  When the first export yields \<open>None\<close> or the empty string, a receive is
  attempted and the delete process is started exactly once, as the last process of the
  call: after the second export when the receive succeeded, right after the receive when
  it failed.  When the first export yields a non-empty text, the export is the only
  process of the call.
\<close>

theorem gpg_delete_key_exactly_once:
  assumes "gpg_export_armour env keyid s = (armour, s1)"
  shows
    "(armour = None \<or> armour = Some [] \<longrightarrow>
        (\<exists>new. snd (snd (gpg_getkeybyid env keyid ks s)) = snd s1 @ new
           \<and> invoked new =
               [''gpg'', ''--keyserver'', ks, ''--recv'', keyid]
               # (case fst (gpg_recv_key env keyid ks s1) of
                    Inl e \<Rightarrow> []
                  | Inr done \<Rightarrow> [[''gpg'', ''--export'', ''--armour'', keyid]])
               @ [[''gpg'', ''--batch'', ''--yes'', ''--delete-keys'', keyid]]
           \<and> count_list (invoked new)
                 [''gpg'', ''--batch'', ''--yes'', ''--delete-keys'', keyid] = 1))
     \<and> ((\<exists>text. armour = Some text \<and> text \<noteq> []) \<longrightarrow>
        snd (gpg_getkeybyid env keyid ks s) = s1
        \<and> invoked (snd s1) = invoked (snd s) @ [[''gpg'', ''--export'', ''--armour'', keyid]])"
proof (intro conjI impI)
  assume absent: "armour = None \<or> armour = Some []"
  obtain w1 tr1 where s1: "s1 = (w1, tr1)" by (cases s1)
  obtain new where new:
    "snd (snd (fetch_then_delete env keyid ks (w1, tr1))) = tr1 @ new"
    "invoked new =
       [''gpg'', ''--keyserver'', ks, ''--recv'', keyid]
       # (case fst (gpg_recv_key env keyid ks (w1, tr1)) of
            Inl e \<Rightarrow> []
          | Inr done \<Rightarrow> [[''gpg'', ''--export'', ''--armour'', keyid]])
       @ [[''gpg'', ''--batch'', ''--yes'', ''--delete-keys'', keyid]]"
    using fetch_then_delete_trace [of env keyid ks w1 tr1] by blast
  have "count_list (invoked new)
          [''gpg'', ''--batch'', ''--yes'', ''--delete-keys'', keyid] = 1"
    unfolding new(2) by (cases "fst (gpg_recv_key env keyid ks (w1, tr1))") simp_all
  then show "\<exists>new. snd (snd (gpg_getkeybyid env keyid ks s)) = snd s1 @ new
           \<and> invoked new =
               [''gpg'', ''--keyserver'', ks, ''--recv'', keyid]
               # (case fst (gpg_recv_key env keyid ks s1) of
                    Inl e \<Rightarrow> []
                  | Inr done \<Rightarrow> [[''gpg'', ''--export'', ''--armour'', keyid]])
               @ [[''gpg'', ''--batch'', ''--yes'', ''--delete-keys'', keyid]]
           \<and> count_list (invoked new)
                 [''gpg'', ''--batch'', ''--yes'', ''--delete-keys'', keyid] = 1"
    unfolding getkeybyid_absent [OF assms absent] s1 using new by auto
next
  assume "\<exists>text. armour = Some text \<and> text \<noteq> []"
  then obtain body where body: "armour = Some body" "body \<noteq> []" by blast
  show "snd (gpg_getkeybyid env keyid ks s) = s1"
    using getkeybyid_present [OF assms [unfolded body(1)] body(2)] by simp
  obtain w tr where s: "s = (w, tr)" by (cases s)
  show "invoked (snd s1) = invoked (snd s) @ [[''gpg'', ''--export'', ''--armour'', keyid]]"
    using assms unfolding s body(1)
    by (auto simp: gpg_export_armour_run invoked_append split: prod.splits sum.splits)
qed

theorem gpg_delete_key_exactly_once_witness:
  \<open>gpg_export_armour (fixture ''xenial'') ''K1''
       ([Inl ''nothing exported'', Inr ([], []), Inr (''KEY'', []), Inr ([], [])], []) =
     (None,
      ([Inr ([], []), Inr (''KEY'', []), Inr ([], [])],
       [Subp [''gpg'', ''--export'', ''--armour'', ''K1''],
        Log Debug ''Failed to export armoured key "%s": %s'' [''K1'', ''nothing exported'']]))
   \<and> count_list
         (invoked (snd (snd (gpg_getkeybyid (fixture ''xenial'') ''K1'' default_keyserver
            ([Inl ''nothing exported'', Inr ([], []), Inr (''KEY'', []), Inr ([], [])], [])))))
         [''gpg'', ''--batch'', ''--yes'', ''--delete-keys'', ''K1''] = 1
   \<and> gpg_export_armour (fixture ''xenial'') ''K1'' ([Inr (''KEY'', [])], []) =
       (Some ''KEY'', ([], [Subp [''gpg'', ''--export'', ''--armour'', ''K1'']]))
   \<and> snd (gpg_getkeybyid (fixture ''xenial'') ''K1'' default_keyserver
            ([Inr (''KEY'', [])], [])) =
       ([], [Subp [''gpg'', ''--export'', ''--armour'', ''K1'']])\<close>
proof -
  have absent: \<open>gpg_export_armour (fixture ''xenial'') ''K1''
       ([Inl ''nothing exported'', Inr ([], []), Inr (''KEY'', []), Inr ([], [])], []) =
     (None,
      ([Inr ([], []), Inr (''KEY'', []), Inr ([], [])],
       [Subp [''gpg'', ''--export'', ''--armour'', ''K1''],
        Log Debug ''Failed to export armoured key "%s": %s'' [''K1'', ''nothing exported'']]))\<close>
    by (simp add: gpg_defs)
  have present: "gpg_export_armour (fixture ''xenial'') ''K1'' ([Inr (''KEY'', [])], []) =
       (Some ''KEY'', ([], [Subp [''gpg'', ''--export'', ''--armour'', ''K1'']]))"
    by (simp add: gpg_defs)
  have once: "count_list
         (invoked (snd (snd (gpg_getkeybyid (fixture ''xenial'') ''K1'' default_keyserver
            ([Inl ''nothing exported'', Inr ([], []), Inr (''KEY'', []), Inr ([], [])], [])))))
         [''gpg'', ''--batch'', ''--yes'', ''--delete-keys'', ''K1''] = 1"
    using gpg_delete_key_exactly_once [OF absent, of default_keyserver]
    by (auto simp: invoked_append)
  show ?thesis
    using gpg_delete_key_exactly_once [OF present, of default_keyserver] absent present once
    by simp
qed

section \<open>A key that is present locally\<close>

text \<open>
  C7, the claim as stated fails: a first export that succeeds with an empty output is
  followed by a receive, and the failure of that receive is what the caller gets.
\<close>

theorem gpg_recv_after_successful_empty_export:
  \<open>fst (gpg_export_armour (fixture ''xenial'') ''K1''
          ([Inr ([], []), Inl ''keyserver timed out'', Inr ([], [])], [])) = Some []
   \<and> invoked (snd (snd (gpg_getkeybyid (fixture ''xenial'') ''K1'' default_keyserver
                          ([Inr ([], []), Inl ''keyserver timed out'', Inr ([], [])], [])))) =
       [[''gpg'', ''--export'', ''--armour'', ''K1''],
        [''gpg'', ''--keyserver'', ''keyserver.ubuntu.com'', ''--recv'', ''K1''],
        [''gpg'', ''--batch'', ''--yes'', ''--delete-keys'', ''K1'']]
   \<and> fst (gpg_getkeybyid (fixture ''xenial'') ''K1'' default_keyserver
            ([Inr ([], []), Inl ''keyserver timed out'', Inr ([], [])], [])) =
       Inl (ValueError
              [''Failed to import key "K1" from server "keyserver.ubuntu.com" - error keyserver timed out''])\<close>
  by (simp add: gpg_defs)

text \<open>
  C7, amended.  When the first export yields a non-empty text, \<open>gpg_getkeybyid\<close> returns
  that text without its trailing newline characters (the text is the result followed by
  newlines only, and the result does not end in a newline), and the export is the only
  process of the call: no receive, no delete.
\<close>

theorem gpg_key_present_locally:
  assumes "gpg_export_armour env keyid s = (Some text, s1)" and "text \<noteq> []"
  shows
    "gpg_getkeybyid env keyid ks s = (Inr (py_rstrip text newline), s1)
     \<and> invoked (snd s1) = invoked (snd s) @ [[''gpg'', ''--export'', ''--armour'', keyid]]
     \<and> (\<exists>n. text = py_rstrip text newline @ replicate n (CHR 0x0A))
     \<and> (py_rstrip text newline = [] \<or> last (py_rstrip text newline) \<noteq> CHR 0x0A)"
proof -
  obtain w tr where s: "s = (w, tr)" by (cases s)
  have "invoked (snd s1) = invoked (snd s) @ [[''gpg'', ''--export'', ''--armour'', keyid]]"
    using assms(1) unfolding s
    by (auto simp: gpg_export_armour_run invoked_append split: prod.splits sum.splits)
  then show ?thesis
    using getkeybyid_present [OF assms] py_rstrip_newline [of "text"] by simp
qed

theorem gpg_key_present_locally_witness:
  "gpg_export_armour (fixture ''xenial'') ''K1''
       ([Inr (''KEY'' @ newline @ newline, [])], []) =
     (Some (''KEY'' @ newline @ newline),
      ([], [Subp [''gpg'', ''--export'', ''--armour'', ''K1'']]))
   \<and> ''KEY'' @ newline @ newline \<noteq> []
   \<and> py_rstrip (''KEY'' @ newline @ newline) newline = ''KEY''
   \<and> gpg_getkeybyid (fixture ''xenial'') ''K1'' default_keyserver
         ([Inr (''KEY'' @ newline @ newline, [])], []) =
       (Inr ''KEY'', ([], [Subp [''gpg'', ''--export'', ''--armour'', ''K1'']]))"
proof -
  have present: "gpg_export_armour (fixture ''xenial'') ''K1''
       ([Inr (''KEY'' @ newline @ newline, [])], []) =
     (Some (''KEY'' @ newline @ newline),
      ([], [Subp [''gpg'', ''--export'', ''--armour'', ''K1'']]))"
    by (simp add: gpg_defs)
  have nonempty: "''KEY'' @ newline @ newline \<noteq> []"
    by simp
  have stripped: "py_rstrip (''KEY'' @ newline @ newline) newline = ''KEY''"
    by (simp add: py_rstrip_def)
  show ?thesis
    using gpg_key_present_locally [OF present nonempty, of default_keyserver] present stripped
    by simp
qed

section \<open>An empty export counts as no key\<close>

text \<open>
  C9.  A call whose first export succeeds with the empty string continues exactly as a
  call whose first export failed and left the same world: same outcome, same final
  world, and the same events after the export, which start the receive first and the
  delete last.
\<close>

theorem gpg_empty_export_treated_as_absent:
  assumes "gpg_export_armour env keyid (w, tr) = (Some [], (w1, tr1))"
    and "gpg_export_armour env keyid (v, ur) = (None, (w1, ur1))"
  shows
    "fst (gpg_getkeybyid env keyid ks (w, tr)) = fst (gpg_getkeybyid env keyid ks (v, ur))
     \<and> fst (snd (gpg_getkeybyid env keyid ks (w, tr))) =
         fst (snd (gpg_getkeybyid env keyid ks (v, ur)))
     \<and> (\<exists>new mid.
           snd (snd (gpg_getkeybyid env keyid ks (w, tr))) = tr1 @ new
           \<and> snd (snd (gpg_getkeybyid env keyid ks (v, ur))) = ur1 @ new
           \<and> invoked new =
               [''gpg'', ''--keyserver'', ks, ''--recv'', keyid] # mid
               @ [[''gpg'', ''--batch'', ''--yes'', ''--delete-keys'', keyid]])"
proof -
  have empty: "gpg_getkeybyid env keyid ks (w, tr) = fetch_then_delete env keyid ks (w1, tr1)"
    using assms(1) by (rule getkeybyid_absent) simp
  have null: "gpg_getkeybyid env keyid ks (v, ur) = fetch_then_delete env keyid ks (w1, ur1)"
    using assms(2) by (rule getkeybyid_absent) simp
  obtain new where new:
    "snd (snd (fetch_then_delete env keyid ks (w1, tr1))) = tr1 @ new"
    "invoked new =
       [''gpg'', ''--keyserver'', ks, ''--recv'', keyid]
       # (case fst (gpg_recv_key env keyid ks (w1, tr1)) of
            Inl e \<Rightarrow> []
          | Inr done \<Rightarrow> [[''gpg'', ''--export'', ''--armour'', keyid]])
       @ [[''gpg'', ''--batch'', ''--yes'', ''--delete-keys'', keyid]]"
    "\<And>ur. fetch_then_delete env keyid ks (w1, ur) =
            (fst (fetch_then_delete env keyid ks (w1, tr1)),
             (fst (snd (fetch_then_delete env keyid ks (w1, tr1))), ur @ new))"
    using fetch_then_delete_trace [of env keyid ks w1 tr1] by blast
  show ?thesis
    unfolding empty null using new(1,2) new(3) [of ur1] by auto
qed

theorem gpg_empty_export_treated_as_absent_witness:
  \<open>gpg_export_armour (fixture ''xenial'') ''K1''
       ([Inr ([], []), Inr ([], []), Inr (''KEY'', []), Inr ([], [])], []) =
     (Some [],
      ([Inr ([], []), Inr (''KEY'', []), Inr ([], [])],
       [Subp [''gpg'', ''--export'', ''--armour'', ''K1'']]))
   \<and> gpg_export_armour (fixture ''xenial'') ''K1''
       ([Inl ''nothing exported'', Inr ([], []), Inr (''KEY'', []), Inr ([], [])], []) =
     (None,
      ([Inr ([], []), Inr (''KEY'', []), Inr ([], [])],
       [Subp [''gpg'', ''--export'', ''--armour'', ''K1''],
        Log Debug ''Failed to export armoured key "%s": %s'' [''K1'', ''nothing exported'']]))
   \<and> fst (gpg_getkeybyid (fixture ''xenial'') ''K1'' default_keyserver
            ([Inl ''nothing exported'', Inr ([], []), Inr (''KEY'', []), Inr ([], [])], [])) =
       Inr ''KEY''
   \<and> fst (gpg_getkeybyid (fixture ''xenial'') ''K1'' default_keyserver
            ([Inr ([], []), Inr ([], []), Inr (''KEY'', []), Inr ([], [])], [])) =
       Inr ''KEY''\<close>
proof -
  have empty: \<open>gpg_export_armour (fixture ''xenial'') ''K1''
       ([Inr ([], []), Inr ([], []), Inr (''KEY'', []), Inr ([], [])], []) =
     (Some [],
      ([Inr ([], []), Inr (''KEY'', []), Inr ([], [])],
       [Subp [''gpg'', ''--export'', ''--armour'', ''K1'']]))\<close>
    by (simp add: gpg_defs)
  have null: \<open>gpg_export_armour (fixture ''xenial'') ''K1''
       ([Inl ''nothing exported'', Inr ([], []), Inr (''KEY'', []), Inr ([], [])], []) =
     (None,
      ([Inr ([], []), Inr (''KEY'', []), Inr ([], [])],
       [Subp [''gpg'', ''--export'', ''--armour'', ''K1''],
        Log Debug ''Failed to export armoured key "%s": %s'' [''K1'', ''nothing exported'']]))\<close>
    by (simp add: gpg_defs)
  have absent: "fst (gpg_getkeybyid (fixture ''xenial'') ''K1'' default_keyserver
            ([Inl ''nothing exported'', Inr ([], []), Inr (''KEY'', []), Inr ([], [])], [])) =
       Inr ''KEY''"
    by (simp add: gpg_defs)
  show ?thesis
    using gpg_empty_export_treated_as_absent [OF empty null, of default_keyserver]
      empty null absent
    by simp
qed

section \<open>No key after a successful receive\<close>

text \<open>
  C10.  When the receive succeeds and the second export yields \<open>None\<close>, the delete
  process is started and the call then ends with the \<open>AttributeError\<close> of
  \<open>None.rstrip\<close>, not with a value.  Hence every value that \<open>gpg_getkeybyid\<close> returns
  is the stripped text of an export that yielded a text: the first one, or the second
  one after a successful receive.
\<close>

theorem gpg_second_export_null:
  "(gpg_export_armour env keyid s = (armour, s1) \<and> (armour = None \<or> armour = Some [])
      \<and> gpg_recv_key env keyid ks s1 = (Inr (), s2)
      \<and> gpg_export_armour env keyid s2 = (None, s3)
    \<longrightarrow> gpg_getkeybyid env keyid ks s =
          (Inl (AttributeError ('''NoneType' object has no attribute 'rstrip'' @ apostrophe)),
           gpg_delete_key env keyid s3)
        \<and> invoked (snd (gpg_delete_key env keyid s3)) =
          invoked (snd s3) @ [[''gpg'', ''--batch'', ''--yes'', ''--delete-keys'', keyid]])
   \<and> (gpg_getkeybyid env keyid ks s = (Inr v, s') \<longrightarrow>
        (\<exists>text u u'.
           (u = s \<or> (\<exists>a s1. gpg_export_armour env keyid s = (a, s1)
                        \<and> gpg_recv_key env keyid ks s1 = (Inr (), u)))
           \<and> gpg_export_armour env keyid u = (Some text, u')
           \<and> v = py_rstrip text newline))"
proof (intro conjI impI)
  assume run: "gpg_export_armour env keyid s = (armour, s1)
      \<and> (armour = None \<or> armour = Some [])
      \<and> gpg_recv_key env keyid ks s1 = (Inr (), s2)
      \<and> gpg_export_armour env keyid s2 = (None, s3)"
  then have "gpg_getkeybyid env keyid ks s = fetch_then_delete env keyid ks s1"
    using getkeybyid_absent by blast
  then show "gpg_getkeybyid env keyid ks s =
          (Inl (AttributeError ('''NoneType' object has no attribute 'rstrip'' @ apostrophe)),
           gpg_delete_key env keyid s3)"
    using run by (simp add: fetch_then_delete_def)
  obtain w3 tr3 where s3: "s3 = (w3, tr3)" by (cases s3)
  show "invoked (snd (gpg_delete_key env keyid s3)) =
          invoked (snd s3) @ [[''gpg'', ''--batch'', ''--yes'', ''--delete-keys'', keyid]]"
  proof -
    obtain new where "snd (gpg_delete_key env keyid (w3, tr3)) = tr3 @ new"
      "invoked new = [[''gpg'', ''--batch'', ''--yes'', ''--delete-keys'', keyid]]"
      using gpg_delete_key_trace [of env keyid w3 tr3] by blast
    then show ?thesis by (simp add: s3 invoked_append)
  qed
next
  assume ret: "gpg_getkeybyid env keyid ks s = (Inr v, s')"
  obtain a s1 where first: "gpg_export_armour env keyid s = (a, s1)"
    by (metis surj_pair)
  show "\<exists>text u u'.
           (u = s \<or> (\<exists>a s1. gpg_export_armour env keyid s = (a, s1)
                        \<and> gpg_recv_key env keyid ks s1 = (Inr (), u)))
           \<and> gpg_export_armour env keyid u = (Some text, u')
           \<and> v = py_rstrip text newline"
  proof (cases "a = None \<or> a = Some []")
    case False
    then obtain body where body: "a = Some body" "body \<noteq> []" by (cases a) auto
    have "v = py_rstrip body newline"
      using getkeybyid_present [OF first [unfolded body(1)] body(2), of ks] ret by simp
    then show ?thesis using first body(1) by blast
  next
    case True
    have fetch: "fetch_then_delete env keyid ks s1 = (Inr v, s')"
      using getkeybyid_absent [OF first True, of ks] ret by simp
    obtain r s2 where recv: "gpg_recv_key env keyid ks s1 = (r, s2)"
      by (metis surj_pair)
    obtain a2 s3 where second: "gpg_export_armour env keyid s2 = (a2, s3)"
      by (metis surj_pair)
    have r: "r = Inr ()"
      using fetch recv by (cases r) (auto simp: fetch_then_delete_def)
    then obtain body where "a2 = Some body" "v = py_rstrip body newline"
      using fetch recv second by (cases a2) (auto simp: fetch_then_delete_def)
    then show ?thesis using first recv r second by blast
  qed
qed

theorem gpg_second_export_null_witness:
  \<open>gpg_export_armour (fixture ''xenial'') ''K1''
       ([Inl ''nothing exported'', Inr ([], []), Inl ''nothing exported'', Inr ([], [])], []) =
     (None,
      ([Inr ([], []), Inl ''nothing exported'', Inr ([], [])],
       [Subp [''gpg'', ''--export'', ''--armour'', ''K1''],
        Log Debug ''Failed to export armoured key "%s": %s'' [''K1'', ''nothing exported'']]))
   \<and> fst (gpg_recv_key (fixture ''xenial'') ''K1'' default_keyserver
            ([Inr ([], []), Inl ''nothing exported'', Inr ([], [])],
             [Subp [''gpg'', ''--export'', ''--armour'', ''K1''],
              Log Debug ''Failed to export armoured key "%s": %s''
                [''K1'', ''nothing exported'']])) = Inr ()
   \<and> fst (gpg_getkeybyid (fixture ''xenial'') ''K1'' default_keyserver
       ([Inl ''nothing exported'', Inr ([], []), Inl ''nothing exported'', Inr ([], [])], [])) =
       Inl (AttributeError ('''NoneType' object has no attribute 'rstrip'' @ apostrophe))
   \<and> invoked (snd (snd (gpg_getkeybyid (fixture ''xenial'') ''K1'' default_keyserver
       ([Inl ''nothing exported'', Inr ([], []), Inl ''nothing exported'', Inr ([], [])],
        [])))) =
       [[''gpg'', ''--export'', ''--armour'', ''K1''],
        [''gpg'', ''--keyserver'', ''keyserver.ubuntu.com'', ''--recv'', ''K1''],
        [''gpg'', ''--export'', ''--armour'', ''K1''],
        [''gpg'', ''--batch'', ''--yes'', ''--delete-keys'', ''K1'']]
   \<and> gpg_getkeybyid (fixture ''xenial'') ''K1'' default_keyserver ([Inr (''KEY'', [])], []) =
       (Inr ''KEY'', ([], [Subp [''gpg'', ''--export'', ''--armour'', ''K1'']]))
   \<and> gpg_export_armour (fixture ''xenial'') ''K1'' ([Inr (''KEY'', [])], []) =
       (Some ''KEY'', ([], [Subp [''gpg'', ''--export'', ''--armour'', ''K1'']]))\<close>
proof -
  have run: \<open>gpg_export_armour (fixture ''xenial'') ''K1''
       ([Inl ''nothing exported'', Inr ([], []), Inl ''nothing exported'', Inr ([], [])], []) =
     (None,
      ([Inr ([], []), Inl ''nothing exported'', Inr ([], [])],
       [Subp [''gpg'', ''--export'', ''--armour'', ''K1''],
        Log Debug ''Failed to export armoured key "%s": %s'' [''K1'', ''nothing exported'']]))\<close>
    \<open>gpg_recv_key (fixture ''xenial'') ''K1'' default_keyserver
            ([Inr ([], []), Inl ''nothing exported'', Inr ([], [])],
             [Subp [''gpg'', ''--export'', ''--armour'', ''K1''],
              Log Debug ''Failed to export armoured key "%s": %s''
                [''K1'', ''nothing exported'']]) =
     (Inr (),
      ([Inl ''nothing exported'', Inr ([], [])],
       [Subp [''gpg'', ''--export'', ''--armour'', ''K1''],
        Log Debug ''Failed to export armoured key "%s": %s'' [''K1'', ''nothing exported''],
        Log Debug ''Receive gpg key "%s"'' [''K1''],
        Subp [''gpg'', ''--keyserver'', ''keyserver.ubuntu.com'', ''--recv'', ''K1'']]))\<close>
    \<open>gpg_export_armour (fixture ''xenial'') ''K1''
       ([Inl ''nothing exported'', Inr ([], [])],
        [Subp [''gpg'', ''--export'', ''--armour'', ''K1''],
         Log Debug ''Failed to export armoured key "%s": %s'' [''K1'', ''nothing exported''],
         Log Debug ''Receive gpg key "%s"'' [''K1''],
         Subp [''gpg'', ''--keyserver'', ''keyserver.ubuntu.com'', ''--recv'', ''K1'']]) =
     (None,
      ([Inr ([], [])],
       [Subp [''gpg'', ''--export'', ''--armour'', ''K1''],
        Log Debug ''Failed to export armoured key "%s": %s'' [''K1'', ''nothing exported''],
        Log Debug ''Receive gpg key "%s"'' [''K1''],
        Subp [''gpg'', ''--keyserver'', ''keyserver.ubuntu.com'', ''--recv'', ''K1''],
        Subp [''gpg'', ''--export'', ''--armour'', ''K1''],
        Log Debug ''Failed to export armoured key "%s": %s''
          [''K1'', ''nothing exported'']]))\<close>
    by (simp_all add: gpg_defs)
  have local: "gpg_getkeybyid (fixture ''xenial'') ''K1'' default_keyserver
       ([Inr (''KEY'', [])], []) =
       (Inr ''KEY'', ([], [Subp [''gpg'', ''--export'', ''--armour'', ''K1'']]))"
    "gpg_export_armour (fixture ''xenial'') ''K1'' ([Inr (''KEY'', [])], []) =
       (Some ''KEY'', ([], [Subp [''gpg'', ''--export'', ''--armour'', ''K1'']]))"
    by (simp_all add: gpg_defs)
  have deleted: \<open>gpg_delete_key (fixture ''xenial'') ''K1''
      ([Inr ([], [])],
       [Subp [''gpg'', ''--export'', ''--armour'', ''K1''],
        Log Debug ''Failed to export armoured key "%s": %s'' [''K1'', ''nothing exported''],
        Log Debug ''Receive gpg key "%s"'' [''K1''],
        Subp [''gpg'', ''--keyserver'', ''keyserver.ubuntu.com'', ''--recv'', ''K1''],
        Subp [''gpg'', ''--export'', ''--armour'', ''K1''],
        Log Debug ''Failed to export armoured key "%s": %s''
          [''K1'', ''nothing exported'']]) =
      ([],
       [Subp [''gpg'', ''--export'', ''--armour'', ''K1''],
        Log Debug ''Failed to export armoured key "%s": %s'' [''K1'', ''nothing exported''],
        Log Debug ''Receive gpg key "%s"'' [''K1''],
        Subp [''gpg'', ''--keyserver'', ''keyserver.ubuntu.com'', ''--recv'', ''K1''],
        Subp [''gpg'', ''--export'', ''--armour'', ''K1''],
        Log Debug ''Failed to export armoured key "%s": %s''
          [''K1'', ''nothing exported''],
        Subp [''gpg'', ''--batch'', ''--yes'', ''--delete-keys'', ''K1'']])\<close>
    by (simp add: gpg_defs)
  have absent: "(None :: string option) = None \<or> (None :: string option) = Some []"
    by simp
  note raised =
    gpg_second_export_null
      [THEN conjunct1, rule_format,
       OF conjI [OF run(1) conjI [OF absent conjI [OF run(2) run(3)]]]]
  note returned = gpg_second_export_null [THEN conjunct2, rule_format, OF local(1)]
  show ?thesis
    using raised returned run local deleted
    by (simp add: default_keyserver_def)
qed

end
